theory Spec2Isabelle
  imports Complex_Main "HOL-Library.Word" "HOL-Library.RBT"
begin

section \<open>The execution core of the computation-graph runtime (include/execution.h)\<close>

text \<open>
  A shallow embedding of the header \<^verbatim>\<open>include/execution.h\<close>: the two callable
  wrappers, memory locations, the instruction classes, the execution graph and the native
  profiler. Classes become records or datatypes, member functions become functions on
  them, member functions that mutate \<^verbatim>\<open>this\<close> return the updated object, and
  undefined behaviour of the C++ (a call through a null function pointer, a dereference
  of an invalid instruction pointer) is an explicit error result.
\<close>

subsection \<open>Types of the missing header cgt\_common.h\<close>

text \<open>
  Modelled from the spec: \<^verbatim>\<open>cgt_common.h\<close> is not among the sources. Its device
  enumeration is \<open>{CPU, GPU}\<close>; a dtype is an enumerator, kept as its integer code; an
  object handle \<^verbatim>\<open>cgtObject *\<close> is opaque and is the type parameter \<open>'o\<close>
  throughout. The two kernel signatures are
  \<^verbatim>\<open>ByRefFun = fn(data, reads: Object**, write: Object*) -> void\<close> and
  \<^verbatim>\<open>ByValFun = fn(data, reads: Object**) -> Object*\<close>; what a native call does is
  opaque as well, so the effect of a by-reference call is the type parameter \<open>'e\<close> and
  the outcome of a by-value call is the type parameter \<open>'r\<close>.
\<close>

type_synonym addr = nat

definition NULL :: addr where
  "NULL = 0"

type_synonym c_int = "32 word"
type_synonym c_long = "64 word"
type_synonym size_t = nat

datatype cgtDevtype = cgtCPU | cgtGPU

type_synonym cgtDtype = int

type_synonym ('o, 'e) cgtByRefFun = "addr \<Rightarrow> 'o list \<Rightarrow> 'o \<Rightarrow> 'e"
type_synonym ('o, 'r) cgtByValFun = "addr \<Rightarrow> 'o list \<Rightarrow> 'r"

datatype error =
    NullFunctionPointer
  | InvalidPointer

subsection \<open>ByRefCallable and ByValCallable\<close>

text \<open>
  A function pointer is \<open>None\<close> when it is \<^verbatim>\<open>NULL\<close>. \<^verbatim>\<open>operator()\<close>
  dereferences \<^verbatim>\<open>fptr\<close> without a check; the call through a null pointer is the
  error \<open>NullFunctionPointer\<close>.
\<close>

record ('o, 'e) ByRefCallable =
  fptr :: "('o, 'e) cgtByRefFun option"
  data :: addr

definition new_ByRefCallable ::
  "('o, 'e) cgtByRefFun option \<Rightarrow> addr \<Rightarrow> ('o, 'e) ByRefCallable" where
  "new_ByRefCallable fptr' data' = \<lparr>ByRefCallable.fptr = fptr', data = data'\<rparr>"

definition default_ByRefCallable :: "('o, 'e) ByRefCallable" where
  "default_ByRefCallable = \<lparr>ByRefCallable.fptr = None, data = NULL\<rparr>"

definition ByRefCallable_call ::
  "('o, 'e) ByRefCallable \<Rightarrow> 'o list \<Rightarrow> 'o \<Rightarrow> error + 'e" where
  "ByRefCallable_call c reads write =
     (case ByRefCallable.fptr c of
        None \<Rightarrow> Inl NullFunctionPointer
      | Some f \<Rightarrow> Inr (f (ByRefCallable.data c) reads write))"

record ('o, 'r) ByValCallable =
  fptr :: "('o, 'r) cgtByValFun option"
  data :: addr

definition new_ByValCallable ::
  "('o, 'r) cgtByValFun option \<Rightarrow> addr \<Rightarrow> ('o, 'r) ByValCallable" where
  "new_ByValCallable fptr' data' = \<lparr>ByValCallable.fptr = fptr', data = data'\<rparr>"

definition default_ByValCallable :: "('o, 'r) ByValCallable" where
  "default_ByValCallable = \<lparr>ByValCallable.fptr = None, data = NULL\<rparr>"

definition ByValCallable_call ::
  "('o, 'r) ByValCallable \<Rightarrow> 'o list \<Rightarrow> error + 'r" where
  "ByValCallable_call c args =
     (case ByValCallable.fptr c of
        None \<Rightarrow> Inl NullFunctionPointer
      | Some f \<Rightarrow> Inr (f (ByValCallable.data c) args))"

subsection \<open>MemLocation\<close>

text \<open>
  The private members \<^verbatim>\<open>index_\<close> and \<^verbatim>\<open>devtype_\<close> are read only through
  the accessors \<^verbatim>\<open>index()\<close> and \<^verbatim>\<open>devtype()\<close>; the record's fields carry the
  accessors' names. A \<^verbatim>\<open>size_t\<close> is a natural number: the header does no arithmetic
  on one.
\<close>

record MemLocation =
  index :: size_t
  devtype :: cgtDevtype

definition default_MemLocation :: MemLocation where
  "default_MemLocation = \<lparr>index = 0, devtype = cgtCPU\<rparr>"

definition new_MemLocation :: "size_t \<Rightarrow> cgtDevtype \<Rightarrow> MemLocation" where
  "new_MemLocation index' devtype' = \<lparr>index = index', devtype = devtype'\<rparr>"

subsection \<open>Instructions\<close>

datatype InstructionKind =
    LoadArgumentKind
  | AllocKind
  | BuildTupKind
  | ReturnByRefKind
  | ReturnByValKind

text \<open>
  The base class \<^verbatim>\<open>Instruction\<close>: its private members \<^verbatim>\<open>kind_\<close>,
  \<^verbatim>\<open>repr_\<close>, \<^verbatim>\<open>pyinstr_hash_\<close> and \<^verbatim>\<open>quick_\<close>, set by its constructor
  and read by the accessors \<^verbatim>\<open>kind()\<close>, \<^verbatim>\<open>repr()\<close>, \<^verbatim>\<open>pyinstr_hash()\<close>
  and \<^verbatim>\<open>quick()\<close>, whose names the fields carry. An \<^verbatim>\<open>int\<close> is a 32-bit
  word and a \<^verbatim>\<open>long\<close> a 64-bit word, read as signed.
\<close>

record Instruction_base =
  kind :: InstructionKind
  repr :: string
  pyinstr_hash :: c_long
  quick :: bool

definition new_Instruction ::
  "InstructionKind \<Rightarrow> string \<Rightarrow> c_long \<Rightarrow> bool \<Rightarrow> Instruction_base" where
  "new_Instruction kind' repr' pyinstr_hash' quick' =
     \<lparr>kind = kind', repr = repr', pyinstr_hash = pyinstr_hash', quick = quick'\<rparr>"

text \<open>
  The five derived classes, one constructor each: the base part first, then the members
  in the order the class declares them. \<^verbatim>\<open>LoadArgument\<close> has a \<^verbatim>\<open>readlocs\<close>
  member as the others do; its constructor leaves it default-constructed.
\<close>

datatype ('o, 'e, 'r) Instruction =
    LoadArgument Instruction_base c_int "MemLocation list" MemLocation
  | Alloc Instruction_base cgtDtype "MemLocation list" MemLocation
  | BuildTup Instruction_base "MemLocation list" MemLocation
  | ReturnByRef Instruction_base "MemLocation list" MemLocation "('o, 'e) ByRefCallable"
  | ReturnByVal Instruction_base "MemLocation list" MemLocation "('o, 'r) ByValCallable"

definition new_LoadArgument ::
  "string \<Rightarrow> c_long \<Rightarrow> c_int \<Rightarrow> MemLocation \<Rightarrow> ('o, 'e, 'r) Instruction" where
  "new_LoadArgument repr' pyinstr_hash' ind writeloc =
     LoadArgument (new_Instruction LoadArgumentKind repr' pyinstr_hash' True) ind [] writeloc"

definition new_Alloc ::
  "string \<Rightarrow> c_long \<Rightarrow> cgtDtype \<Rightarrow> MemLocation list \<Rightarrow> MemLocation
     \<Rightarrow> ('o, 'e, 'r) Instruction" where
  "new_Alloc repr' pyinstr_hash' dtype readlocs writeloc =
     Alloc (new_Instruction AllocKind repr' pyinstr_hash' True) dtype readlocs writeloc"

definition new_BuildTup ::
  "string \<Rightarrow> c_long \<Rightarrow> MemLocation list \<Rightarrow> MemLocation \<Rightarrow> ('o, 'e, 'r) Instruction" where
  "new_BuildTup repr' pyinstr_hash' readlocs writeloc =
     BuildTup (new_Instruction BuildTupKind repr' pyinstr_hash' True) readlocs writeloc"

definition new_ReturnByRef ::
  "string \<Rightarrow> c_long \<Rightarrow> MemLocation list \<Rightarrow> MemLocation \<Rightarrow> ('o, 'e) ByRefCallable \<Rightarrow> bool
     \<Rightarrow> ('o, 'e, 'r) Instruction" where
  "new_ReturnByRef repr' pyinstr_hash' readlocs writeloc callable quick' =
     ReturnByRef (new_Instruction ReturnByRefKind repr' pyinstr_hash' quick')
       readlocs writeloc callable"

definition new_ReturnByVal ::
  "string \<Rightarrow> c_long \<Rightarrow> MemLocation list \<Rightarrow> MemLocation \<Rightarrow> ('o, 'r) ByValCallable \<Rightarrow> bool
     \<Rightarrow> ('o, 'e, 'r) Instruction" where
  "new_ReturnByVal repr' pyinstr_hash' readlocs writeloc callable quick' =
     ReturnByVal (new_Instruction ReturnByValKind repr' pyinstr_hash' quick')
       readlocs writeloc callable"

text \<open>
  The base-class part of an instruction: \<^verbatim>\<open>instr->quick()\<close> is
  \<open>quick (base instr)\<close>, and likewise for the other inherited accessors.
\<close>

fun base :: "('o, 'e, 'r) Instruction \<Rightarrow> Instruction_base" where
  "base (LoadArgument b ind readlocs writeloc) = b"
| "base (Alloc b dtype readlocs writeloc) = b"
| "base (BuildTup b readlocs writeloc) = b"
| "base (ReturnByRef b readlocs writeloc callable) = b"
| "base (ReturnByVal b readlocs writeloc callable) = b"

text \<open>The two pure virtual accessors, as each derived class overrides them.\<close>

fun get_readlocs :: "('o, 'e, 'r) Instruction \<Rightarrow> MemLocation list" where
  "get_readlocs (LoadArgument b ind readlocs writeloc) = readlocs"
| "get_readlocs (Alloc b dtype readlocs writeloc) = readlocs"
| "get_readlocs (BuildTup b readlocs writeloc) = readlocs"
| "get_readlocs (ReturnByRef b readlocs writeloc callable) = readlocs"
| "get_readlocs (ReturnByVal b readlocs writeloc callable) = readlocs"

fun get_writeloc :: "('o, 'e, 'r) Instruction \<Rightarrow> MemLocation" where
  "get_writeloc (LoadArgument b ind readlocs writeloc) = writeloc"
| "get_writeloc (Alloc b dtype readlocs writeloc) = writeloc"
| "get_writeloc (BuildTup b readlocs writeloc) = writeloc"
| "get_writeloc (ReturnByRef b readlocs writeloc callable) = writeloc"
| "get_writeloc (ReturnByVal b readlocs writeloc callable) = writeloc"

subsection \<open>ExecutionGraph\<close>

text \<open>
  The graph owns its instructions and no member function changes one, so the vector of
  instruction pointers is the list of the instructions themselves. The members
  \<^verbatim>\<open>instrs_\<close>, \<^verbatim>\<open>n_args_\<close> and \<^verbatim>\<open>n_locs_\<close> carry their accessors' names.
\<close>

record ('o, 'e, 'r) ExecutionGraph =
  instrs :: "('o, 'e, 'r) Instruction list"
  n_args :: size_t
  n_locs :: size_t

definition new_ExecutionGraph ::
  "('o, 'e, 'r) Instruction list \<Rightarrow> size_t \<Rightarrow> size_t \<Rightarrow> ('o, 'e, 'r) ExecutionGraph" where
  "new_ExecutionGraph instrs' n_args' n_locs' =
     \<lparr>instrs = instrs', n_args = n_args', n_locs = n_locs'\<rparr>"

definition n_instrs :: "('o, 'e, 'r) ExecutionGraph \<Rightarrow> size_t" where
  "n_instrs g = length (instrs g)"

text \<open>
  The public member functions of the class, all of them \<^verbatim>\<open>const\<close>: a call returns
  its answer and the object as the call leaves it. (The destructor, which ends the life of
  the object, is declared in the header and defined elsewhere.)
\<close>

datatype ExecutionGraph_method = Call_instrs | Call_n_args | Call_n_locs | Call_n_instrs

datatype ('o, 'e, 'r) ExecutionGraph_answer =
    Instrs "('o, 'e, 'r) Instruction list"
  | Size size_t

fun invoke ::
  "ExecutionGraph_method \<Rightarrow> ('o, 'e, 'r) ExecutionGraph
     \<Rightarrow> ('o, 'e, 'r) ExecutionGraph_answer \<times> ('o, 'e, 'r) ExecutionGraph" where
  "invoke Call_instrs g = (Instrs (instrs g), g)"
| "invoke Call_n_args g = (Size (n_args g), g)"
| "invoke Call_n_locs g = (Size (n_locs g), g)"
| "invoke Call_n_instrs g = (Size (n_instrs g), g)"

fun invoke_all ::
  "ExecutionGraph_method list \<Rightarrow> ('o, 'e, 'r) ExecutionGraph \<Rightarrow> ('o, 'e, 'r) ExecutionGraph" where
  "invoke_all [] g = g"
| "invoke_all (m # ms) g = invoke_all ms (snd (invoke m g))"

subsection \<open>InstructionStats and NativeProfiler\<close>

text \<open>
  The profiler does arithmetic on \<^verbatim>\<open>double\<close> only through \<^verbatim>\<open>+=\<close> and the
  constant \<^verbatim>\<open>0.0\<close>, so the type of a time is a parameter \<open>'d\<close> with an addition and
  a zero: exact numbers and IEEE doubles both instantiate it.
\<close>

record 'd InstructionStats =
  instr_repr :: string
  pyinstr_hash :: c_long
  count :: c_int
  time_total :: 'd

definition new_InstructionStats ::
  "string \<Rightarrow> c_long \<Rightarrow> c_int \<Rightarrow> 'd \<Rightarrow> 'd InstructionStats" where
  "new_InstructionStats instr_repr' pyinstr_hash' count' time_total' =
     \<lparr>instr_repr = instr_repr', pyinstr_hash = pyinstr_hash', count = count',
       time_total = time_total'\<rparr>"

text \<open>
  \<^verbatim>\<open>std::map<Instruction*, InstructionStats*>\<close> is a search tree ordered by its
  keys, here a red-black tree keyed by the instructions' addresses. Every value of the map
  is an object that \<^verbatim>\<open>update\<close> allocated for that key alone, so the tree holds the
  records themselves. An \<^verbatim>\<open>Instruction*\<close> is an address; the instructions live in
  a memory \<open>mem\<close>, and reading through an address that holds no instruction is the
  error \<open>InvalidPointer\<close>.
\<close>

record 'd NativeProfiler =
  on :: bool
  t_total :: 'd
  instr2stats :: "(addr, 'd InstructionStats) rbt"

type_synonym ('o, 'e, 'r) instr_mem = "addr \<Rightarrow> ('o, 'e, 'r) Instruction option"

definition start :: "'d NativeProfiler \<Rightarrow> 'd NativeProfiler" where
  "start p = p\<lparr>on := True\<rparr>"

definition stop :: "'d NativeProfiler \<Rightarrow> 'd NativeProfiler" where
  "stop p = p\<lparr>on := False\<rparr>"

definition is_on :: "'d NativeProfiler \<Rightarrow> bool" where
  "is_on p = on p"

definition update ::
  "('o, 'e, 'r) instr_mem \<Rightarrow> addr \<Rightarrow> 'd::plus \<Rightarrow> 'd NativeProfiler
     \<Rightarrow> error + 'd NativeProfiler" where
  "update mem instr elapsed p =
     (if RBT.lookup (instr2stats p) instr = None then
        (case mem instr of
           None \<Rightarrow> Inl InvalidPointer
         | Some i \<Rightarrow>
             Inr (p\<lparr>instr2stats :=
                       RBT.insert instr
                         (new_InstructionStats (repr (base i))
                            (Instruction_base.pyinstr_hash (base i)) 1 elapsed)
                         (instr2stats p),
                     t_total := t_total p + elapsed\<rparr>))
      else
        Inr (p\<lparr>instr2stats :=
                  RBT.map_entry instr
                    (\<lambda>s. s\<lparr>count := count s + 1, time_total := time_total s + elapsed\<rparr>)
                    (instr2stats p),
                t_total := t_total p + elapsed\<rparr>))"

definition clear_stats :: "'d::zero NativeProfiler \<Rightarrow> 'd NativeProfiler" where
  "clear_stats p = p\<lparr>instr2stats := RBT.empty, t_total := 0\<rparr>"

definition get_t_total :: "'d NativeProfiler \<Rightarrow> 'd" where
  "get_t_total p = t_total p"

text \<open>The snapshot walks the map from \<^verbatim>\<open>begin()\<close> to \<^verbatim>\<open>end()\<close>: in key order.\<close>

definition get_instr_stats :: "'d NativeProfiler \<Rightarrow> 'd InstructionStats list" where
  "get_instr_stats p = map snd (RBT.entries (instr2stats p))"

text \<open>
  The one profiler of the process, \<^verbatim>\<open>static NativeProfiler native_profiler\<close>: an
  object of static storage duration with no constructor of its own starts out
  zero-initialised, with an empty map.
\<close>

definition native_profiler :: "'d::zero NativeProfiler" where
  "native_profiler = \<lparr>on = False, t_total = 0, instr2stats = RBT.empty\<rparr>"

text \<open>Sequences of \<^verbatim>\<open>update\<close> and \<^verbatim>\<open>clear_stats\<close> calls; the first error ends one.\<close>

datatype 'd profiler_call = Update addr 'd | ClearStats

fun call ::
  "('o, 'e, 'r) instr_mem \<Rightarrow> 'd::{zero,plus} profiler_call \<Rightarrow> 'd NativeProfiler
     \<Rightarrow> error + 'd NativeProfiler" where
  "call mem (Update instr elapsed) p = update mem instr elapsed p"
| "call mem ClearStats p = Inr (clear_stats p)"

fun calls ::
  "('o, 'e, 'r) instr_mem \<Rightarrow> 'd::{zero,plus} profiler_call list \<Rightarrow> 'd NativeProfiler
     \<Rightarrow> error + 'd NativeProfiler" where
  "calls mem [] p = Inr p"
| "calls mem (c # cs) p =
     (case call mem c p of Inl err \<Rightarrow> Inl err | Inr p' \<Rightarrow> calls mem cs p')"

text \<open>
  The sum of \<open>time_total\<close> over the records, added up in the arithmetic of the times
  and in the order of the snapshot.
\<close>

definition sum_time_total :: "'d::{zero,plus} InstructionStats list \<Rightarrow> 'd" where
  "sum_time_total rs = foldl (\<lambda>acc r. acc + time_total r) 0 rs"

subsection \<open>The arithmetic of double\<close>

text \<open>
  IEEE 754 binary64, as far as the profiler uses it: the values, zero and addition rounded
  to nearest, ties to even. \<open>Finite s m e\<close> is the number \<open>(-1)\<^sup>s * m * 2\<^sup>e\<close>; a value
  of the format has \<open>0 \<le> m < 2\<^sup>5\<^sup>3\<close> and \<open>-1074 \<le> e \<le> 971\<close>, and \<open>m < 2\<^sup>5\<^sup>2\<close> only
  for \<open>e = -1074\<close> (zero and the subnormal numbers), so that every number has one
  representation. All NaNs are one value.
\<close>

datatype double = Finite bool int int | Infinity bool | NaN

definition emin :: int where
  "emin = -1074"

definition emax :: int where
  "emax = 971"

text \<open>The number of binary digits of a positive integer.\<close>

function bit_length :: "int \<Rightarrow> int" where
  "bit_length n = (if n \<le> 0 then 0 else 1 + bit_length (n div 2))"
  by pat_completeness auto
termination
  by (relation "measure nat") auto

declare bit_length.simps [simp del]

text \<open>\<open>n / 2\<^sup>k\<close> rounded to the nearest integer, a tie to the even one.\<close>

definition round_even :: "int \<Rightarrow> nat \<Rightarrow> int" where
  "round_even n k =
     (let q = n div 2 ^ k; r = n mod 2 ^ k
      in if 2 * r > 2 ^ k \<or> (2 * r = 2 ^ k \<and> odd q) then q + 1 else q)"

text \<open>
  The double nearest to \<open>(-1)\<^sup>s * n * 2\<^sup>e\<close> for \<open>n > 0\<close>: \<open>k\<close> low digits are dropped
  to leave at most 53 and an exponent of at least \<open>emin\<close>; rounding up to \<open>2\<^sup>5\<^sup>3\<close>
  carries into the exponent; past \<open>emax\<close> the result is an infinity.
\<close>

definition to_double :: "bool \<Rightarrow> int \<Rightarrow> int \<Rightarrow> double" where
  "to_double s n e =
     (let k = max (bit_length n - 53) (emin - e);
          m = (if k \<le> 0 then n * 2 ^ nat (- k) else round_even n (nat k));
          (m', e') = (if m = 2 ^ 53 then (2 ^ 52, e + k + 1) else (m, e + k))
      in if e' > emax then Infinity s else Finite s m' e')"

definition signed :: "bool \<Rightarrow> int \<Rightarrow> int" where
  "signed s m = (if s then - m else m)"

text \<open>
  Addition: the exact sum of the two numbers, rounded. An exact zero is \<open>-0\<close> only as the
  sum of two negative zeros.
\<close>

fun double_add :: "double \<Rightarrow> double \<Rightarrow> double" where
  "double_add NaN y = NaN"
| "double_add x NaN = NaN"
| "double_add (Infinity s) (Infinity t) = (if s = t then Infinity s else NaN)"
| "double_add (Infinity s) (Finite t m e) = Infinity s"
| "double_add (Finite s m e) (Infinity t) = Infinity t"
| "double_add (Finite s1 m1 e1) (Finite s2 m2 e2) =
     (let e = min e1 e2;
          v = signed s1 m1 * 2 ^ nat (e1 - e) + signed s2 m2 * 2 ^ nat (e2 - e)
      in if v = 0 then Finite (s1 \<and> s2) 0 emin else to_double (v < 0) \<bar>v\<bar> e)"

instantiation double :: "{zero, plus}"
begin

definition zero_double :: double where
  "zero_double = Finite False 0 emin"

definition plus_double :: "double \<Rightarrow> double \<Rightarrow> double" where
  "plus_double = double_add"

instance ..

end

text \<open>
  The rational number that a finite double denotes; an infinity and NaN denote none.
\<close>

fun double_value :: "double \<Rightarrow> rat option" where
  "double_value (Finite s m e) = Some (of_int (signed s m) * power_int 2 e)"
| "double_value (Infinity s) = None"
| "double_value NaN = None"

text \<open>
  The comparison \<^verbatim>\<open>==\<close> of two doubles: NaN equals nothing, itself included, an
  infinity equals the infinity of its sign, and two finite doubles are equal when they
  denote the same number (so \<open>-0 == +0\<close>), compared here at their lower exponent.
\<close>

fun double_eq :: "double \<Rightarrow> double \<Rightarrow> bool" where
  "double_eq NaN y = False"
| "double_eq x NaN = False"
| "double_eq (Infinity s) (Infinity t) = (s = t)"
| "double_eq (Infinity s) (Finite t m e) = False"
| "double_eq (Finite s m e) (Infinity t) = False"
| "double_eq (Finite s1 m1 e1) (Finite s2 m2 e2) =
     (let e = min e1 e2
      in signed s1 m1 * 2 ^ nat (e1 - e) = signed s2 m2 * 2 ^ nat (e2 - e))"

text \<open>
  The additivity \<open>t_total == \<Sigma> stats[i].time_total\<close> of the profiler, whose times are
  doubles: the sum is taken in double arithmetic over the snapshot and compared by
  \<^verbatim>\<open>==\<close>.
\<close>

definition profiler_additive :: "double NativeProfiler \<Rightarrow> bool" where
  "profiler_additive p = double_eq (t_total p) (sum_time_total (get_instr_stats p))"

text \<open>
  An addition of two doubles is exact when both are finite and the result is finite and
  denotes the sum of the two numbers: nothing was rounded away. The three numbers are
  compared at the lowest of the three exponents.
\<close>

fun exact_add :: "double \<Rightarrow> double \<Rightarrow> bool" where
  "exact_add (Finite s1 m1 e1) (Finite s2 m2 e2) =
     (case Finite s1 m1 e1 + Finite s2 m2 e2 of
        Finite s m e \<Rightarrow>
          (let e0 = min e (min e1 e2)
           in signed s m * 2 ^ nat (e - e0)
              = signed s1 m1 * 2 ^ nat (e1 - e0) + signed s2 m2 * 2 ^ nat (e2 - e0))
      | _ \<Rightarrow> False)"
| "exact_add x y = False"

text \<open>
  A call of the profiler is exact when each \<^verbatim>\<open>+=\<close> it executes is: an update adds
  \<open>elapsed\<close> to \<open>t_total\<close> and, when the instruction has a record, to the record's
  \<open>time_total\<close>. A sequence of calls is exact when each call is, in the state it is
  made in.
\<close>

fun exact_call :: "double profiler_call \<Rightarrow> double NativeProfiler \<Rightarrow> bool" where
  "exact_call (Update instr e) p =
     (exact_add (t_total p) e
      \<and> (case RBT.lookup (instr2stats p) instr of
            None \<Rightarrow> True
          | Some s \<Rightarrow> exact_add (time_total s) e))"
| "exact_call ClearStats p = True"

fun exact_calls ::
  "('o, 'e, 'r) instr_mem \<Rightarrow> double profiler_call list \<Rightarrow> double NativeProfiler \<Rightarrow> bool" where
  "exact_calls mem [] p = True"
| "exact_calls mem (c # cs) p =
     (exact_call c p
      \<and> (case call mem c p of Inl err \<Rightarrow> True | Inr p' \<Rightarrow> exact_calls mem cs p'))"

text \<open>
  The sum of the numbers that a list of doubles denote, when all of them are finite; and
  the additivity of the profiler read in exact arithmetic: \<open>t_total\<close> and every
  \<open>time_total\<close> are finite, and the number \<open>t_total\<close> denotes is the sum of the numbers
  the \<open>time_total\<close>s denote.
\<close>

fun exact_sum :: "double list \<Rightarrow> rat option" where
  "exact_sum [] = Some 0"
| "exact_sum (x # xs) =
     (case (double_value x, exact_sum xs) of
        (Some a, Some b) \<Rightarrow> Some (a + b)
      | _ \<Rightarrow> None)"

definition exactly_additive :: "double NativeProfiler \<Rightarrow> bool" where
  "exactly_additive p =
     (double_value (t_total p) \<noteq> None
      \<and> double_value (t_total p) = exact_sum (map time_total (get_instr_stats p)))"

text \<open>Adding the doubles \<open>xs\<close> to \<open>acc\<close> one after the other, every addition is exact.\<close>

fun no_rounding :: "double \<Rightarrow> double list \<Rightarrow> bool" where
  "no_rounding acc [] = True"
| "no_rounding acc (x # xs) = (exact_add acc x \<and> no_rounding (acc + x) xs)"

text \<open>The doubles that the literals \<open>0.1\<close>, \<open>0.2\<close> and \<open>0.3\<close> denote.\<close>

definition double_0_1 :: double where
  "double_0_1 = Finite False 7205759403792794 (-56)"

definition double_0_2 :: double where
  "double_0_2 = Finite False 7205759403792794 (-55)"

definition double_0_3 :: double where
  "double_0_3 = Finite False 5404319552844595 (-54)"

text \<open>
  Two instructions in memory, and three updates of a cleared profiler: \<open>0.1\<close> seconds for
  the first instruction, then \<open>0.2\<close> and \<open>0.3\<close> seconds for the second.
\<close>

definition example_mem :: "(unit, unit, unit) instr_mem" where
  "example_mem =
     [1 \<mapsto> new_LoadArgument ''load'' 11 0 (new_MemLocation 0 cgtCPU),
      2 \<mapsto> new_BuildTup ''tup'' 12 [new_MemLocation 0 cgtCPU] (new_MemLocation 1 cgtCPU)]"

definition rounding_run :: "error + double NativeProfiler" where
  "rounding_run =
     calls example_mem [Update 1 double_0_1, Update 2 double_0_2, Update 2 double_0_3]
       (clear_stats native_profiler)"

text \<open>
  The doubles \<open>0.5\<close>, \<open>0.25\<close> and \<open>0.125\<close>, and the same three updates with
  them: no addition of this run rounds.
\<close>

definition double_0_5 :: double where
  "double_0_5 = Finite False 4503599627370496 (-53)"

definition double_0_25 :: double where
  "double_0_25 = Finite False 4503599627370496 (-54)"

definition double_0_125 :: double where
  "double_0_125 = Finite False 4503599627370496 (-55)"

definition exact_run :: "error + double NativeProfiler" where
  "exact_run =
     calls example_mem [Update 1 double_0_5, Update 2 double_0_25, Update 2 double_0_125]
       (clear_stats native_profiler)"

section \<open>The interpreters\<close>

text \<open>
  The header declares the interface \<^verbatim>\<open>Interpreter\<close> (\<^verbatim>\<open>run\<close>, \<^verbatim>\<open>get\<close>,
  \<^verbatim>\<open>set\<close>, \<^verbatim>\<open>getarg\<close>), the factory \<^verbatim>\<open>create_interpreter\<close> and
  \<^verbatim>\<open>Instruction::fire\<close>; their bodies are in a source file that is not among the
  sources. This section models them from the specification: instruction semantics (4.1),
  the sequential interpreter (4.3), the parallel interpreter (4.4), the factory (4.6), the
  slot storage (3) and the errors (7). Three decisions of the model:
  \<^item> An object handle stands for the object it points to: a slot holds an object value, and
    a by-reference kernel that writes its output in place leaves the written object in the
    slot. Two slots never share an object.
  \<^item> A kernel is an opaque native function. Beyond the objects it is passed it may read
    and change a state of the host, of type \<open>'w\<close>: a call maps the host state to the
    object produced (\<open>None\<close> when the kernel signals failure) and the new host state.
  \<^item> An instruction fires atomically; two fires that run at the same time on two threads
    are two fires in one order or the other. Timing and the profiler are left out.
\<close>

subsection \<open>Objects, storage and errors\<close>

text \<open>
  Modelled from the spec: the error taxonomy of section 7, which the missing source raises.
  \<open>CallError\<close> wraps the error of a callable (a null function pointer).
\<close>

datatype run_error =
    ArgArity
  | SlotOutOfRange
  | UninitializedRead
  | TypeMismatch
  | KernelFailure
  | CallError error

text \<open>
  Modelled from the spec: the object API of section 6 that the missing tensor object
  system provides, as far as \<^verbatim>\<open>fire\<close> uses it: \<open>scalar_as_size\<close> (no size
  for an object that is not a scalar integer), \<open>alloc_tensor(dtype, shape, device)\<close>,
  \<open>build_tuple(items)\<close> and \<open>is_tuple\<close>.
\<close>

record 'o object_api =
  scalar_as_size :: "'o \<Rightarrow> nat option"
  alloc_tensor :: "cgtDtype \<Rightarrow> nat list \<Rightarrow> cgtDevtype \<Rightarrow> 'o"
  build_tuple :: "'o list \<Rightarrow> 'o"
  is_tuple :: "'o \<Rightarrow> bool"

text \<open>
  Modelled from the spec: what a call of a native kernel does (the callback targets are
  external to the repository), the instructions and graphs over such kernels, the slot
  array of section 3 (\<open>None\<close> is the null handle) and the state of a run: the slots and
  the host state.
\<close>

type_synonym ('o, 'w) kernel_effect = "'w \<Rightarrow> 'o option \<times> 'w"
type_synonym ('o, 'w) instr = "('o, ('o, 'w) kernel_effect, ('o, 'w) kernel_effect) Instruction"
type_synonym ('o, 'w) graph =
  "('o, ('o, 'w) kernel_effect, ('o, 'w) kernel_effect) ExecutionGraph"
type_synonym 'o storage = "'o option list"
type_synonym ('o, 'w) machine = "'o storage \<times> 'w"

text \<open>Sequencing of steps that may fail: the first error ends the run.\<close>

definition and_then :: "run_error + 'a \<Rightarrow> ('a \<Rightarrow> run_error + 'b) \<Rightarrow> run_error + 'b" where
  "and_then r f = (case r of Inl e \<Rightarrow> Inl e | Inr x \<Rightarrow> f x)"

text \<open>
  Modelled from the spec: \<^verbatim>\<open>Interpreter::get\<close>, missing from the sources. The
  storage is an array of \<open>n_locs\<close> handles indexed by the slot index of the location; a
  slot index outside the array is \<open>SlotOutOfRange\<close>.
\<close>

definition get :: "'o storage \<Rightarrow> MemLocation \<Rightarrow> run_error + 'o option" where
  "get st loc = (if index loc < length st then Inr (st ! index loc) else Inl SlotOutOfRange)"

text \<open>
  Modelled from the spec: \<^verbatim>\<open>Interpreter::set\<close>, missing from the sources: the new
  object replaces the prior occupant of the slot. (Reference counts are not modelled.)
\<close>

definition set_slot :: "'o storage \<Rightarrow> MemLocation \<Rightarrow> 'o \<Rightarrow> run_error + 'o storage" where
  "set_slot st loc obj =
     (if index loc < length st then Inr (st[index loc := Some obj]) else Inl SlotOutOfRange)"

text \<open>
  Modelled from the spec: \<^verbatim>\<open>Interpreter::getarg\<close>, missing from the sources: the
  \<open>ind\<close>-th object of the current argument tuple. The spec names no error for an \<open>ind\<close>
  that the tuple does not have; the model fails with \<open>ArgArity\<close>.
\<close>

definition getarg :: "'o list \<Rightarrow> c_int \<Rightarrow> run_error + 'o" where
  "getarg args ind =
     (if 0 \<le> sint ind \<and> nat (sint ind) < length args then Inr (args ! nat (sint ind))
      else Inl ArgArity)"

text \<open>
  Modelled from the spec: reading the object of a read-slot; a slot that holds null when
  its consumer fires is \<open>UninitializedRead\<close>.
\<close>

definition read_slot :: "'o storage \<Rightarrow> MemLocation \<Rightarrow> run_error + 'o" where
  "read_slot st loc =
     and_then (get st loc) (\<lambda>h. case h of None \<Rightarrow> Inl UninitializedRead | Some obj \<Rightarrow> Inr obj)"

text \<open>
  Modelled from the spec: the objects at the read-slots of an instruction, in order, as
  the missing \<^verbatim>\<open>fire\<close> gathers them; the first slot that cannot be read fails.
\<close>

fun read_slots :: "'o storage \<Rightarrow> MemLocation list \<Rightarrow> run_error + 'o list" where
  "read_slots st [] = Inr []"
| "read_slots st (loc # locs) =
     and_then (read_slot st loc) (\<lambda>obj. and_then (read_slots st locs) (\<lambda>objs. Inr (obj # objs)))"

text \<open>
  Modelled from the spec: \<^verbatim>\<open>Alloc\<close> reads each object at its read-slots as a
  scalar-integer shape component; one that is not a scalar integer is \<open>TypeMismatch\<close>.
\<close>

fun shape_of :: "'o object_api \<Rightarrow> 'o list \<Rightarrow> run_error + nat list" where
  "shape_of api [] = Inr []"
| "shape_of api (obj # objs) =
     (case scalar_as_size api obj of
        None \<Rightarrow> Inl TypeMismatch
      | Some n \<Rightarrow> and_then (shape_of api objs) (\<lambda>ns. Inr (n # ns)))"

text \<open>Modelled from the spec: a kernel that signals failure is \<open>KernelFailure\<close>.\<close>

definition kernel_result :: "'o option \<times> 'w \<Rightarrow> run_error + 'o \<times> 'w" where
  "kernel_result r = (case r of (None, w') \<Rightarrow> Inl KernelFailure | (Some obj, w') \<Rightarrow> Inr (obj, w'))"

subsection \<open>Instruction semantics\<close>

text \<open>
  Modelled from the spec: the five overrides of \<^verbatim>\<open>Instruction::fire\<close>, missing from
  the sources (section 4.1). \<open>fire_value\<close> is the part of a fire that reads the slots and
  produces an object: \<^verbatim>\<open>LoadArgument\<close> fetches the \<open>ind\<close>-th argument;
  \<^verbatim>\<open>Alloc\<close> allocates a tensor of the shape read from its read-slots, the given dtype
  and the device of its write-slot; \<^verbatim>\<open>BuildTup\<close> builds the tuple of the objects at
  its read-slots, in order; \<^verbatim>\<open>ReturnByRef\<close> gathers its reads, reads the object at
  its write-slot as the output buffer (no object there, or a tuple: \<open>TypeMismatch\<close>) and
  calls its callable on \<open>(reads, write)\<close>, which leaves the written output object;
  \<^verbatim>\<open>ReturnByVal\<close> calls its callable on the reads, which produces a new object.
\<close>

fun fire_value ::
  "'o object_api \<Rightarrow> 'o list \<Rightarrow> ('o, 'w) instr \<Rightarrow> ('o, 'w) machine \<Rightarrow> run_error + 'o \<times> 'w" where
  "fire_value api args (LoadArgument b ind readlocs writeloc) (st, w) =
     and_then (getarg args ind) (\<lambda>obj. Inr (obj, w))"
| "fire_value api args (Alloc b dtype readlocs writeloc) (st, w) =
     and_then (read_slots st readlocs) (\<lambda>objs.
     and_then (shape_of api objs) (\<lambda>shape.
       Inr (alloc_tensor api dtype shape (devtype writeloc), w)))"
| "fire_value api args (BuildTup b readlocs writeloc) (st, w) =
     and_then (read_slots st readlocs) (\<lambda>objs. Inr (build_tuple api objs, w))"
| "fire_value api args (ReturnByRef b readlocs writeloc callable) (st, w) =
     and_then (read_slots st readlocs) (\<lambda>reads.
     and_then (get st writeloc) (\<lambda>h.
       case h of
         None \<Rightarrow> Inl TypeMismatch
       | Some write \<Rightarrow>
           if is_tuple api write then Inl TypeMismatch
           else (case ByRefCallable_call callable reads write of
                   Inl err \<Rightarrow> Inl (CallError err)
                 | Inr effect \<Rightarrow> kernel_result (effect w))))"
| "fire_value api args (ReturnByVal b readlocs writeloc callable) (st, w) =
     and_then (read_slots st readlocs) (\<lambda>reads.
       case ByValCallable_call callable reads of
         Inl err \<Rightarrow> Inl (CallError err)
       | Inr produce \<Rightarrow> kernel_result (produce w))"

text \<open>
  Modelled from the spec: \<^verbatim>\<open>fire(interpreter)\<close>, the contract all instructions share:
  it reads the slots named in the read-slots, produces an object and stores it at the
  write-slot through \<^verbatim>\<open>interpreter.set\<close>.
\<close>

definition fire ::
  "'o object_api \<Rightarrow> 'o list \<Rightarrow> ('o, 'w) instr \<Rightarrow> ('o, 'w) machine
     \<Rightarrow> run_error + ('o, 'w) machine" where
  "fire api args i m =
     and_then (fire_value api args i m) (\<lambda>(obj, w').
     and_then (set_slot (fst m) (get_writeloc i) obj) (\<lambda>st'. Inr (st', w')))"

subsection \<open>The sequential interpreter\<close>

text \<open>
  Modelled from the spec: what \<^verbatim>\<open>run\<close> ends in. It completes, having fired the instructions in some order, with the
  output tuple and the state it leaves (the slots are not cleared after a run); or it
  fails. An error is fatal to the run; the model does not keep the slots of a failed run.
\<close>

datatype ('o, 'w) outcome =
    Completed "nat list" "'o list" "('o, 'w) machine"
  | Failed run_error

text \<open>Modelled from the spec: each instruction fires, in program order (4.3, step 3).\<close>

fun fire_all ::
  "'o object_api \<Rightarrow> 'o list \<Rightarrow> ('o, 'w) instr list \<Rightarrow> ('o, 'w) machine
     \<Rightarrow> run_error + ('o, 'w) machine" where
  "fire_all api args [] m = Inr m"
| "fire_all api args (i # is) m = and_then (fire api args i m) (fire_all api args is)"

text \<open>
  Modelled from the spec: the end of a run gathers the objects at \<open>output_locs\<close> into the
  result tuple (4.3, step 4).
\<close>

definition finish_run ::
  "MemLocation list \<Rightarrow> nat list \<Rightarrow> ('o, 'w) machine \<Rightarrow> ('o, 'w) outcome" where
  "finish_run output_locs order m =
     (case read_slots (fst m) output_locs of
        Inl err \<Rightarrow> Failed err
      | Inr out \<Rightarrow> Completed order out m)"

text \<open>
  Modelled from the spec: \<^verbatim>\<open>run\<close> of the sequential interpreter, missing from the
  sources (4.3): the argument tuple must have \<open>n_args\<close> elements, else \<open>ArgArity\<close>; then
  the instructions fire in program order and the outputs are gathered.
\<close>

definition run_sequential ::
  "'o object_api \<Rightarrow> ('o, 'w) graph \<Rightarrow> MemLocation list \<Rightarrow> 'o list \<Rightarrow> ('o, 'w) machine
     \<Rightarrow> ('o, 'w) outcome" where
  "run_sequential api G output_locs args m =
     (if length args \<noteq> n_args G then Failed ArgArity
      else (case fire_all api args (instrs G) m of
              Inl err \<Rightarrow> Failed err
            | Inr m' \<Rightarrow> finish_run output_locs [0..<n_instrs G] m'))"

subsection \<open>The parallel interpreter\<close>

text \<open>
  Modelled from the spec: the dependency model of 4.4. Instruction \<open>j\<close> depends on
  instruction \<open>i < j\<close> iff \<open>i.writeloc \<in> j.readlocs\<close> (flow) or
  \<open>j.writeloc == i.writeloc\<close> (output) or \<open>j.writeloc \<in> i.readlocs\<close> (anti). Two
  locations are the same slot when their indices are equal: the storage is indexed by the
  slot index, and \<^verbatim>\<open>MemLocation\<close> has no equality of its own.
\<close>

definition conflicts :: "('o, 'e, 'r) Instruction \<Rightarrow> ('o, 'e, 'r) Instruction \<Rightarrow> bool" where
  "conflicts a b =
     (index (get_writeloc a) \<in> index ` set (get_readlocs b)
      \<or> index (get_writeloc b) = index (get_writeloc a)
      \<or> index (get_writeloc b) \<in> index ` set (get_readlocs a))"

text \<open>
  Modelled from the spec: the edges of the dependency DAG, which the missing parallel
  interpreter computes: \<open>j\<close> depends on \<open>i\<close> when \<open>i\<close> comes first in program order
  and the two conflict.
\<close>

definition depends :: "('o, 'e, 'r) ExecutionGraph \<Rightarrow> nat \<Rightarrow> nat \<Rightarrow> bool" where
  "depends G i j = (i < j \<and> j < n_instrs G \<and> conflicts (instrs G ! i) (instrs G ! j))"

text \<open>
  Modelled from the spec: the DAG computed at interpreter creation, one node per
  instruction: the successors of a node and the number of its predecessors.
\<close>

definition successors :: "('o, 'e, 'r) ExecutionGraph \<Rightarrow> nat \<Rightarrow> nat list" where
  "successors G i = filter (depends G i) [0..<n_instrs G]"

text \<open>
  Modelled from the spec: the pending-predecessor count an instruction starts a run with,
  the number of its in-edges.
\<close>

definition n_predecessors :: "('o, 'e, 'r) ExecutionGraph \<Rightarrow> nat \<Rightarrow> nat" where
  "n_predecessors G j = length (filter (\<lambda>i. depends G i j) [0..<n_instrs G])"

text \<open>
  Modelled from the spec: the state of the scheduler (4.4): the ready-queue; the
  instructions popped and not yet completed, on a worker or inline on the dispatcher; the
  pending-predecessor count of every instruction; the state of the run; and the
  instructions fired so far, in the order in which they fired.
\<close>

record ('o, 'w) scheduler =
  ready :: "nat list"
  in_flight :: "nat list"
  pending :: "nat list"
  machine :: "('o, 'w) machine"
  fired :: "nat list"

text \<open>
  Modelled from the spec: at the start of a run the ready-queue holds the instructions with
  no in-edge.
\<close>

definition initial_scheduler :: "('o, 'w) graph \<Rightarrow> ('o, 'w) machine \<Rightarrow> ('o, 'w) scheduler" where
  "initial_scheduler G m =
     \<lparr>ready = filter (\<lambda>j. n_predecessors G j = 0) [0..<n_instrs G],
      in_flight = [],
      pending = map (n_predecessors G) [0..<n_instrs G],
      machine = m,
      fired = []\<rparr>"

text \<open>
  Modelled from the spec: a thread that has fired an instruction decrements the
  pending-predecessor counts of its successors, and a successor that reaches zero is
  pushed to the queue.
\<close>

definition release :: "nat list \<Rightarrow> nat list \<Rightarrow> nat list" where
  "release succs counts = fold (\<lambda>j p. p[j := p ! j - 1]) succs counts"

text \<open>
  Modelled from the spec: the scheduler after instruction \<open>i\<close> has fired and left the
  state \<open>m'\<close>: \<open>i\<close> is no longer in flight, it is the last of the fired instructions, and
  its successors are released.
\<close>

definition retire ::
  "('o, 'w) graph \<Rightarrow> nat \<Rightarrow> ('o, 'w) machine \<Rightarrow> ('o, 'w) scheduler \<Rightarrow> ('o, 'w) scheduler" where
  "retire G i m' s =
     (let pending' = release (successors G i) (pending s)
      in s\<lparr>ready := ready s @ filter (\<lambda>j. pending' ! j = 0) (successors G i),
            in_flight := remove1 i (in_flight s),
            pending := pending',
            machine := m',
            fired := fired s @ [i]\<rparr>)"

text \<open>
  Modelled from the spec: the steps of the scheduler. \<open>pop\<close>: the head of the ready-queue
  is taken by a worker when one of the \<open>num_threads\<close> workers is free, or inline by the
  dispatcher when the instruction is quick. \<open>finish\<close>: an instruction in flight fires and
  releases its successors. Any instruction in flight may finish next, whatever the order
  of the pops.
\<close>

inductive scheduler_step ::
  "'o object_api \<Rightarrow> ('o, 'w) graph \<Rightarrow> nat \<Rightarrow> 'o list
     \<Rightarrow> ('o, 'w) scheduler \<Rightarrow> ('o, 'w) scheduler \<Rightarrow> bool"
  for api G num_threads args where
    pop:
      "ready s = i # q \<Longrightarrow>
       length (in_flight s) < num_threads \<or> quick (base (instrs G ! i)) \<Longrightarrow>
       scheduler_step api G num_threads args s (s\<lparr>ready := q, in_flight := in_flight s @ [i]\<rparr>)"
  | finish:
      "i \<in> set (in_flight s) \<Longrightarrow>
       fire api args (instrs G ! i) (machine s) = Inr m' \<Longrightarrow>
       scheduler_step api G num_threads args s (retire G i m' s)"

text \<open>
  Modelled from the spec: \<^verbatim>\<open>run\<close> blocks until all instructions have fired, then
  gathers the outputs; a fire that fails is fatal to the run.
\<close>

inductive scheduler_run ::
  "'o object_api \<Rightarrow> ('o, 'w) graph \<Rightarrow> MemLocation list \<Rightarrow> nat \<Rightarrow> 'o list
     \<Rightarrow> ('o, 'w) scheduler \<Rightarrow> ('o, 'w) outcome \<Rightarrow> bool"
  for api G output_locs num_threads args where
    all_fired:
      "ready s = [] \<Longrightarrow> in_flight s = [] \<Longrightarrow>
       scheduler_run api G output_locs num_threads args s
         (finish_run output_locs (fired s) (machine s))"
  | fatal:
      "i \<in> set (in_flight s) \<Longrightarrow>
       fire api args (instrs G ! i) (machine s) = Inl err \<Longrightarrow>
       scheduler_run api G output_locs num_threads args s (Failed err)"
  | step:
      "scheduler_step api G num_threads args s s' \<Longrightarrow>
       scheduler_run api G output_locs num_threads args s' r \<Longrightarrow>
       scheduler_run api G output_locs num_threads args s r"

subsection \<open>The factory and run\<close>

text \<open>
  Modelled from the spec: \<^verbatim>\<open>create_interpreter\<close>, declared in the header and defined
  in the missing source (4.6): a sequential interpreter when \<open>num_threads \<le> 1\<close>, else a
  parallel interpreter with that many workers.
\<close>

datatype ('o, 'w) Interpreter =
    SequentialInterpreter "('o, 'w) graph" "MemLocation list"
  | ParallelInterpreter "('o, 'w) graph" "MemLocation list" nat


text \<open>
  Modelled from the spec: \<^verbatim>\<open>Interpreter::run\<close>, pure virtual in the header: the
  outcomes a run of an interpreter can have on an argument tuple, from a state. The
  sequential interpreter has one; the parallel interpreter has one for every way its
  scheduler can go.
\<close>

inductive run ::
  "'o object_api \<Rightarrow> ('o, 'w) Interpreter \<Rightarrow> 'o list \<Rightarrow> ('o, 'w) machine
     \<Rightarrow> ('o, 'w) outcome \<Rightarrow> bool"
  for api where
    sequential:
      "run api (SequentialInterpreter G output_locs) args m
         (run_sequential api G output_locs args m)"
  | parallel_arity:
      "length args \<noteq> n_args G \<Longrightarrow>
       run api (ParallelInterpreter G output_locs num_threads) args m (Failed ArgArity)"
  | parallel:
      "length args = n_args G \<Longrightarrow>
       scheduler_run api G output_locs num_threads args (initial_scheduler G m) r \<Longrightarrow>
       run api (ParallelInterpreter G output_locs num_threads) args m r"

subsection \<open>Pure kernels and topological orders\<close>





subsection \<open>Firing orders and the invariant of the scheduler\<close>

text \<open>
  Notions for the proofs. Firing a list of instructions in order, errors forgotten:
  \<open>fire_ok\<close> is \<open>None\<close> when the fire fails.
\<close>

fun exec_order :: "(nat \<Rightarrow> 's \<Rightarrow> 's option) \<Rightarrow> nat list \<Rightarrow> 's \<Rightarrow> 's option" where
  "exec_order f [] m = Some m"
| "exec_order f (x # xs) m = (case f x m of None \<Rightarrow> None | Some m' \<Rightarrow> exec_order f xs m')"

definition commute :: "(nat \<Rightarrow> 's \<Rightarrow> 's option) \<Rightarrow> nat \<Rightarrow> nat \<Rightarrow> bool" where
  "commute f x y = (\<forall>m. exec_order f [x, y] m = exec_order f [y, x] m)"







subsection \<open>Two graphs\<close>















section \<open>Properties of the instruction classes\<close>

text \<open>
  Claim C4. Every \<^verbatim>\<open>LoadArgument\<close>, \<^verbatim>\<open>Alloc\<close> and \<^verbatim>\<open>BuildTup\<close> instruction
  has \<^verbatim>\<open>quick() = true\<close> whatever its constructor is given, and for
  \<^verbatim>\<open>ReturnByRef\<close> and \<^verbatim>\<open>ReturnByVal\<close> \<^verbatim>\<open>quick()\<close> is the boolean passed to
  the constructor.
\<close>

theorem quick_of_constructed:
  "quick (base (new_LoadArgument r h ind w :: ('o, 'e, 'r) Instruction))
   \<and> quick (base (new_Alloc r h dt rs w :: ('o, 'e, 'r) Instruction))
   \<and> quick (base (new_BuildTup r h rs w :: ('o, 'e, 'r) Instruction))
   \<and> quick (base (new_ReturnByRef r h rs w cr q :: ('o, 'e, 'r) Instruction)) = q
   \<and> quick (base (new_ReturnByVal r h rs w cv q :: ('o, 'e, 'r) Instruction)) = q"
  by (simp add: new_LoadArgument_def new_Alloc_def new_BuildTup_def
      new_ReturnByRef_def new_ReturnByVal_def new_Instruction_def)

text \<open>
  Claim C7. Every instruction exposes one write-slot, the location its constructor was
  given, and the read-slot list its constructor was given; a \<^verbatim>\<open>LoadArgument\<close>
  instruction, whose constructor takes no read-slots, exposes the empty list.
\<close>

theorem locs_of_constructed:
  "get_writeloc (new_LoadArgument r h ind w :: ('o, 'e, 'r) Instruction) = w
   \<and> get_writeloc (new_Alloc r h dt rs w :: ('o, 'e, 'r) Instruction) = w
   \<and> get_writeloc (new_BuildTup r h rs w :: ('o, 'e, 'r) Instruction) = w
   \<and> get_writeloc (new_ReturnByRef r h rs w cr q :: ('o, 'e, 'r) Instruction) = w
   \<and> get_writeloc (new_ReturnByVal r h rs w cv q :: ('o, 'e, 'r) Instruction) = w
   \<and> get_readlocs (new_LoadArgument r h ind w :: ('o, 'e, 'r) Instruction) = []
   \<and> get_readlocs (new_Alloc r h dt rs w :: ('o, 'e, 'r) Instruction) = rs
   \<and> get_readlocs (new_BuildTup r h rs w :: ('o, 'e, 'r) Instruction) = rs
   \<and> get_readlocs (new_ReturnByRef r h rs w cr q :: ('o, 'e, 'r) Instruction) = rs
   \<and> get_readlocs (new_ReturnByVal r h rs w cv q :: ('o, 'e, 'r) Instruction) = rs"
  by (simp add: new_LoadArgument_def new_Alloc_def new_BuildTup_def
      new_ReturnByRef_def new_ReturnByVal_def)

section \<open>Properties of the callables\<close>

text \<open>
  Claim C8. Invoking a \<^verbatim>\<open>ByRefCallable\<close> on \<open>(reads, write)\<close> is the call
  \<open>fptr(data, reads, write)\<close> of the bound function pointer and nothing else (the call
  has an effect and no value); invoking a \<^verbatim>\<open>ByValCallable\<close> on \<open>reads\<close> returns
  what \<open>fptr(data, reads)\<close> returns; \<open>data\<close> is the pointer bound at construction.
\<close>

theorem callable_call_is_fptr_call:
  "ByRefCallable_call (new_ByRefCallable (Some f) d) reads write = Inr (f d reads write)
   \<and> ByValCallable_call (new_ByValCallable (Some g) d) reads = Inr (g d reads)"
  by (simp add: ByRefCallable_call_def new_ByRefCallable_def
      ByValCallable_call_def new_ByValCallable_def)

text \<open>
  Claim C10. A default-constructed \<^verbatim>\<open>ByRefCallable\<close> or \<^verbatim>\<open>ByValCallable\<close> has
  \<open>fptr = NULL\<close> and \<open>data = NULL\<close>, and invoking it, on any arguments, is a call
  through the null function pointer: \<^verbatim>\<open>operator()\<close> checks nothing first.
\<close>

theorem default_callable_call_is_null_call:
  "ByRefCallable.fptr (default_ByRefCallable :: ('o, 'e) ByRefCallable) = None
   \<and> ByRefCallable.data (default_ByRefCallable :: ('o, 'e) ByRefCallable) = NULL
   \<and> ByValCallable.fptr (default_ByValCallable :: ('o, 'r) ByValCallable) = None
   \<and> ByValCallable.data (default_ByValCallable :: ('o, 'r) ByValCallable) = NULL
   \<and> ByRefCallable_call (default_ByRefCallable :: ('o, 'e) ByRefCallable) reads write
       = Inl NullFunctionPointer
   \<and> ByValCallable_call (default_ByValCallable :: ('o, 'r) ByValCallable) reads
       = Inl NullFunctionPointer"
  by (simp add: ByRefCallable_call_def default_ByRefCallable_def
      ByValCallable_call_def default_ByValCallable_def)

section \<open>Properties of the execution graph\<close>

lemma snd_invoke: "snd (invoke m g) = g"
  by (cases m) simp_all

lemma invoke_all_id: "invoke_all ms g = g"
  by (induction ms arbitrary: g) (simp_all add: snd_invoke)

text \<open>
  Claim C6. A graph constructed from \<open>(instrs, n_args, n_locs)\<close> answers
  \<open>instrs() = instrs\<close>, \<open>n_args() = n_args\<close>, \<open>n_locs() = n_locs\<close> and
  \<open>n_instrs() = length instrs\<close>, and it still does after any sequence of calls of its
  member functions.
\<close>

theorem graph_accessors_constant:
  "instrs (invoke_all ms (new_ExecutionGraph is na nl)) = is
   \<and> n_args (invoke_all ms (new_ExecutionGraph is na nl)) = na
   \<and> n_locs (invoke_all ms (new_ExecutionGraph is na nl)) = nl
   \<and> n_instrs (invoke_all ms (new_ExecutionGraph is na nl)) = length is"
  by (simp add: invoke_all_id new_ExecutionGraph_def n_instrs_def)

section \<open>Properties of the profiler\<close>

lemma entries_empty: "RBT.entries (RBT.empty :: ('k::linorder, 'v) rbt) = []"
proof -
  have "RBT.keys (RBT.empty :: ('k, 'v) rbt) = []"
    by simp
  then show ?thesis
    by (simp add: RBT.keys_def_alt)
qed

text \<open>
  Claim C5. After \<^verbatim>\<open>clear_stats()\<close>, \<^verbatim>\<open>get_t_total()\<close> returns \<open>0.0\<close> and
  \<^verbatim>\<open>get_instr_stats()\<close> returns the empty sequence, whatever the state of the
  profiler was before.
\<close>

theorem clear_stats_resets:
  "get_t_total (clear_stats p) = 0 \<and> get_instr_stats (clear_stats p) = []"
  by (simp add: get_t_total_def get_instr_stats_def clear_stats_def entries_empty)

text \<open>
  Claim C2. \<^verbatim>\<open>update(instr, e)\<close>: when the map has a record for \<open>instr\<close>, the
  record's count grows by one and its \<open>time_total\<close> by \<open>e\<close>; when it has none (and
  \<open>instr\<close> points to an instruction), the map gets a fresh record with the instruction's
  \<open>repr\<close> and \<open>pyinstr_hash\<close>, count \<open>1\<close> and \<open>time_total = e\<close>. Either way
  \<open>t_total\<close> grows by \<open>e\<close> and the map changes at the key \<open>instr\<close> only. (Without a
  record, an \<open>instr\<close> that points to no instruction cannot be read.)
\<close>

theorem update_effect:
  "(case (RBT.lookup (instr2stats p) instr, mem instr) of
      (Some s, _) \<Rightarrow>
        (\<exists>p'. update mem instr e p = Inr p'
           \<and> RBT.lookup (instr2stats p') =
               (RBT.lookup (instr2stats p))
                 (instr \<mapsto> s\<lparr>count := count s + 1, time_total := time_total s + e\<rparr>)
           \<and> t_total p' = t_total p + e \<and> on p' = on p)
    | (None, Some i) \<Rightarrow>
        (\<exists>p'. update mem instr e p = Inr p'
           \<and> RBT.lookup (instr2stats p') =
               (RBT.lookup (instr2stats p))
                 (instr \<mapsto> \<lparr>instr_repr = repr (base i),
                            pyinstr_hash = Instruction_base.pyinstr_hash (base i),
                            count = 1, time_total = e\<rparr>)
           \<and> t_total p' = t_total p + e \<and> on p' = on p)
    | (None, None) \<Rightarrow> update mem instr e p = Inl InvalidPointer)"
  by (simp add: update_def new_InstructionStats_def split: option.split)

text \<open>
  Claim C9. \<^verbatim>\<open>update\<close> never reads the \<open>on\<close> flag. On a profiler that is off
  (\<^verbatim>\<open>is_on()\<close> returns false after \<^verbatim>\<open>stop()\<close>) it still adds one to the count
  of the record of \<open>instr\<close> and \<open>e\<close> to its \<open>time_total\<close> (or inserts the fresh
  record with count \<open>1\<close> and \<open>time_total = e\<close>), adds \<open>e\<close> to \<open>t_total\<close>, and
  leaves the profiler off; that is exactly what it does to the profiler switched on, the
  flag apart, and in general the flag passes through \<^verbatim>\<open>update\<close> unread. (Skipping the
  timing when the profiler is off is left to the interpreters.)
\<close>

theorem update_ignores_on:
  "is_on (stop p) = False
   \<and> (case (RBT.lookup (instr2stats p) instr, mem instr) of
        (Some s, _) \<Rightarrow>
          (\<exists>p'. update mem instr e (stop p) = Inr p'
             \<and> RBT.lookup (instr2stats p') =
                 (RBT.lookup (instr2stats p))
                   (instr \<mapsto> s\<lparr>count := count s + 1, time_total := time_total s + e\<rparr>)
             \<and> t_total p' = t_total p + e \<and> is_on p' = False)
      | (None, Some i) \<Rightarrow>
          (\<exists>p'. update mem instr e (stop p) = Inr p'
             \<and> RBT.lookup (instr2stats p') =
                 (RBT.lookup (instr2stats p))
                   (instr \<mapsto> \<lparr>instr_repr = repr (base i),
                              pyinstr_hash = Instruction_base.pyinstr_hash (base i),
                              count = 1, time_total = e\<rparr>)
             \<and> t_total p' = t_total p + e \<and> is_on p' = False)
      | (None, None) \<Rightarrow> update mem instr e (stop p) = Inl InvalidPointer)
   \<and> update mem instr e (stop p) = map_sum id stop (update mem instr e (start p))
   \<and> update mem instr e (p\<lparr>on := b\<rparr>) = map_sum id (\<lambda>q. q\<lparr>on := b\<rparr>) (update mem instr e p)"
  by (simp add: update_def is_on_def stop_def start_def new_InstructionStats_def
      split: option.split)

subsection \<open>Additivity of the profiler\<close>

text \<open>Exact additions in terms of the numbers that the doubles denote.\<close>

lemma scaled_value:
  "e0 \<le> e \<Longrightarrow> (of_int (k * 2 ^ nat (e - e0)) :: rat) = of_int k * power_int 2 e * power_int 2 (- e0)"
proof -
  assume le: "e0 \<le> e"
  have "power_int (2::rat) e * power_int 2 (- e0) = power_int 2 (e - e0)"
    by (simp add: power_int_diff power_int_minus field_simps)
  also have "\<dots> = 2 ^ nat (e - e0)"
    using le by (simp add: power_int_def)
  finally show ?thesis by (simp add: mult.assoc)
qed

lemma exact_add_value:
  assumes "exact_add x y"
  shows "\<exists>a b. double_value x = Some a \<and> double_value y = Some b
           \<and> double_value (x + y) = Some (a + b)"
proof -
  from assms obtain s1 m1 e1 s2 m2 e2 where x: "x = Finite s1 m1 e1" and y: "y = Finite s2 m2 e2"
    by (cases x; cases y) simp_all
  from assms obtain s m e where sum: "x + y = Finite s m e"
    unfolding x y by (cases "Finite s1 m1 e1 + Finite s2 m2 e2") simp_all
  define e0 where "e0 = min e (min e1 e2)"
  have le: "e0 \<le> e" "e0 \<le> e1" "e0 \<le> e2"
    by (simp_all add: e0_def)
  from assms have "signed s m * 2 ^ nat (e - e0)
      = signed s1 m1 * 2 ^ nat (e1 - e0) + signed s2 m2 * 2 ^ nat (e2 - e0)"
    using sum unfolding x y by (simp add: e0_def Let_def)
  then have "(of_int (signed s m * 2 ^ nat (e - e0)) :: rat)
      = of_int (signed s1 m1 * 2 ^ nat (e1 - e0)) + of_int (signed s2 m2 * 2 ^ nat (e2 - e0))"
    by (simp only: of_int_add[symmetric])
  then have "(of_int (signed s m) * power_int 2 e) * power_int (2::rat) (- e0)
      = (of_int (signed s1 m1) * power_int 2 e1 + of_int (signed s2 m2) * power_int 2 e2) * power_int 2 (- e0)"
    unfolding scaled_value[OF le(1)] scaled_value[OF le(2)] scaled_value[OF le(3)]
    by (simp add: distrib_right)
  then have "of_int (signed s m) * power_int (2::rat) e
      = of_int (signed s1 m1) * power_int 2 e1 + of_int (signed s2 m2) * power_int 2 e2"
    by simp
  then show ?thesis
    by (simp add: x y sum[unfolded x y])
qed

lemma double_eq_value:
  assumes "double_value x = Some a" "double_value y = Some a"
  shows "double_eq x y"
proof -
  from assms obtain s1 m1 e1 s2 m2 e2 where x: "x = Finite s1 m1 e1" and y: "y = Finite s2 m2 e2"
    by (cases x; cases y) simp_all
  define e0 where "e0 = min e1 e2"
  have le: "e0 \<le> e1" "e0 \<le> e2"
    by (simp_all add: e0_def)
  from assms have "of_int (signed s1 m1) * power_int (2::rat) e1 = of_int (signed s2 m2) * power_int 2 e2"
    by (simp add: x y)
  then have "(of_int (signed s1 m1 * 2 ^ nat (e1 - e0)) :: rat) = of_int (signed s2 m2 * 2 ^ nat (e2 - e0))"
    unfolding scaled_value[OF le(1)] scaled_value[OF le(2)] by simp
  then have "signed s1 m1 * 2 ^ nat (e1 - e0) = signed s2 m2 * 2 ^ nat (e2 - e0)"
    by (simp only: of_int_eq_iff)
  then show ?thesis
    by (simp add: x y e0_def Let_def)
qed

lemma double_value_zero: "double_value 0 = Some 0"
  by (simp add: zero_double_def signed_def)

lemma exact_sum_if:
  "exact_sum xs =
     (if \<forall>x \<in> set xs. double_value x \<noteq> None
      then Some (sum_list (map (\<lambda>x. the (double_value x)) xs)) else None)"
  by (induction xs) (auto split: option.splits)

lemma exact_sum_Some:
  "exact_sum xs = Some r \<longleftrightarrow>
     (\<forall>x \<in> set xs. double_value x \<noteq> None) \<and> r = sum_list (map (\<lambda>x. the (double_value x)) xs)"
  unfolding exact_sum_if by auto

lemma no_rounding_foldl:
  "no_rounding acc xs \<Longrightarrow> double_value acc = Some a \<Longrightarrow>
     (\<forall>x \<in> set xs. double_value x \<noteq> None)
     \<and> double_value (foldl (+) acc xs) = Some (a + sum_list (map (\<lambda>x. the (double_value x)) xs))"
proof (induction xs arbitrary: acc a)
  case Nil
  then show ?case by simp
next
  case (Cons x xs)
  from Cons.prems(1) have ex: "exact_add acc x" and rest: "no_rounding (acc + x) xs"
    by simp_all
  from exact_add_value[OF ex] Cons.prems(2) obtain b where
    b: "double_value x = Some b" and ab: "double_value (acc + x) = Some (a + b)"
    by auto
  from Cons.IH[OF rest ab] b show ?case
    by (simp add: add.assoc)
qed

lemma sum_time_total_foldl:
  "sum_time_total rs = foldl (+) 0 (map time_total rs)"
  by (simp add: sum_time_total_def foldl_map)

lemma additive_when_exact:
  assumes "exactly_additive q" "no_rounding 0 (map time_total (get_instr_stats q))"
  shows "profiler_additive q"
proof -
  let ?xs = "map time_total (get_instr_stats q)"
  from assms(1) have ne: "double_value (t_total q) \<noteq> None"
    and eq: "double_value (t_total q) = exact_sum ?xs"
    unfolding exactly_additive_def by blast+
  from ne obtain t where t: "double_value (t_total q) = Some t"
    by blast
  with eq have s: "exact_sum ?xs = Some t"
    by simp
  from s have "t = sum_list (map (\<lambda>x. the (double_value x)) ?xs)"
    by (simp add: exact_sum_Some)
  with no_rounding_foldl[OF assms(2) double_value_zero]
  have "double_value (sum_time_total (get_instr_stats q)) = Some t"
    by (simp add: sum_time_total_foldl)
  with t show ?thesis
    unfolding profiler_additive_def by (rule double_eq_value)
qed

text \<open>
  The snapshot lists the records of the map, so a sum over it is a sum over the keys; the
  exact additivity is kept by every exact update.
\<close>

lemma entries_by_keys:
  "RBT.entries t = map (\<lambda>k. (k, the (RBT.lookup t k))) (RBT.keys t)"
proof -
  have "map (\<lambda>k. (k, the (RBT.lookup t k))) (map fst (RBT.entries t)) = map id (RBT.entries t)"
    unfolding map_map
  proof (rule map_cong[OF refl])
    fix x assume "x \<in> set (RBT.entries t)"
    then have "RBT.lookup t (fst x) = Some (snd x)"
      by (simp add: RBT.lookup_in_tree)
    then show "((\<lambda>k. (k, the (RBT.lookup t k))) \<circ> fst) x = id x"
      by simp
  qed
  then show ?thesis
    by (simp add: RBT.keys_def_alt)
qed

lemma stats_sum_list_by_dom:
  fixes f :: "'d InstructionStats \<Rightarrow> 'a::comm_monoid_add"
  shows "sum_list (map f (get_instr_stats p)) =
         (\<Sum>k \<in> dom (RBT.lookup (instr2stats p)). f (the (RBT.lookup (instr2stats p) k)))"
proof -
  have "sum_list (map f (get_instr_stats p)) =
        sum_list (map (\<lambda>k. f (the (RBT.lookup (instr2stats p) k))) (RBT.keys (instr2stats p)))"
    unfolding get_instr_stats_def
    by (subst entries_by_keys) (simp add: comp_def)
  also have "\<dots> = (\<Sum>k \<in> set (RBT.keys (instr2stats p)). f (the (RBT.lookup (instr2stats p) k)))"
    by (rule sum_list_distinct_conv_sum_set) simp
  finally show ?thesis
    by (simp add: RBT.lookup_keys)
qed

lemma set_get_instr_stats: "set (get_instr_stats p) = ran (RBT.lookup (instr2stats p))"
proof -
  have "s \<in> set (get_instr_stats p) \<longleftrightarrow> s \<in> ran (RBT.lookup (instr2stats p))" for s
  proof -
    have "s \<in> set (get_instr_stats p) \<longleftrightarrow> (\<exists>k. (k, s) \<in> set (RBT.entries (instr2stats p)))"
      by (force simp: get_instr_stats_def)
    also have "\<dots> \<longleftrightarrow> (\<exists>k. RBT.lookup (instr2stats p) k = Some s)"
      by (simp add: RBT.lookup_in_tree)
    finally show ?thesis
      by (simp add: ran_def)
  qed
  then show ?thesis
    by blast
qed

lemma exactly_additive_iff:
  "exactly_additive p \<longleftrightarrow>
     (\<forall>s \<in> ran (RBT.lookup (instr2stats p)). double_value (time_total s) \<noteq> None)
     \<and> double_value (t_total p) =
         Some (\<Sum>k \<in> dom (RBT.lookup (instr2stats p)).
                 the (double_value (time_total (the (RBT.lookup (instr2stats p) k)))))"
proof -
  have "sum_list (map (\<lambda>x. the (double_value x)) (map time_total (get_instr_stats p)))
        = (\<Sum>k \<in> dom (RBT.lookup (instr2stats p)).
             the (double_value (time_total (the (RBT.lookup (instr2stats p) k)))))"
    unfolding map_map comp_def by (rule stats_sum_list_by_dom)
  then show ?thesis
    unfolding exactly_additive_def exact_sum_if
    by (auto simp: set_get_instr_stats)
qed

lemma exactly_additive_clear_stats: "exactly_additive (clear_stats p)"
  by (simp add: exactly_additive_iff clear_stats_def double_value_zero)

lemma exactly_additive_update:
  assumes inv: "exactly_additive p"
    and ex: "exact_call (Update instr e) p"
    and upd: "update mem instr e p = Inr q"
  shows "exactly_additive q"
proof -
  let ?L = "RBT.lookup (instr2stats p)"
  let ?D = "dom ?L"
  let ?v = "\<lambda>s. the (double_value (time_total s))"
  let ?f = "\<lambda>k. ?v (the (?L k))"
  from inv have fin_p: "\<And>k s. ?L k = Some s \<Longrightarrow> double_value (time_total s) \<noteq> None"
    and tot_p: "double_value (t_total p) = Some (\<Sum>k \<in> ?D. ?f k)"
    unfolding exactly_additive_iff by (auto simp: ran_def)
  from ex have "exact_add (t_total p) e"
    by simp
  from exact_add_value[OF this] tot_p obtain b where
    b: "double_value e = Some b"
    and tot_q: "double_value (t_total p + e) = Some ((\<Sum>k \<in> ?D. ?f k) + b)"
    by auto
  have fin: "finite ?D"
    by simp
  show ?thesis
  proof (cases "?L instr")
    case None
    with upd obtain i where "mem instr = Some i"
      by (cases "mem instr") (auto simp: update_def)
    with upd None have q: "q = p\<lparr>instr2stats :=
        RBT.insert instr (new_InstructionStats (repr (base i)) (Instruction_base.pyinstr_hash (base i)) 1 e)
          (instr2stats p), t_total := t_total p + e\<rparr>"
      by (simp add: update_def)
    have notin: "instr \<notin> ?D"
      using None by auto
    have dom_q: "dom (RBT.lookup (instr2stats q)) = insert instr ?D"
      by (simp add: q)
    have "(\<Sum>k \<in> insert instr ?D. ?v (the (RBT.lookup (instr2stats q) k)))
          = ?v (the (RBT.lookup (instr2stats q) instr))
            + (\<Sum>k \<in> ?D. ?v (the (RBT.lookup (instr2stats q) k)))"
      by (rule sum.insert[OF fin notin])
    also have "(\<Sum>k \<in> ?D. ?v (the (RBT.lookup (instr2stats q) k))) = (\<Sum>k \<in> ?D. ?f k)"
      by (rule sum.cong) (use notin in \<open>auto simp: q\<close>)
    also have "?v (the (RBT.lookup (instr2stats q) instr)) = b"
      by (simp add: q new_InstructionStats_def b)
    finally have sum_q: "(\<Sum>k \<in> dom (RBT.lookup (instr2stats q)). ?v (the (RBT.lookup (instr2stats q) k)))
          = (\<Sum>k \<in> ?D. ?f k) + b"
      unfolding dom_q by (simp add: add.commute)
    have fin_q: "double_value (time_total s) \<noteq> None" if "RBT.lookup (instr2stats q) k = Some s" for k s
      using that fin_p[of k s] b by (auto simp: q new_InstructionStats_def split: if_splits)
    have "t_total q = t_total p + e"
      by (simp add: q)
    with tot_q sum_q fin_q show ?thesis
      unfolding exactly_additive_iff by (auto simp: ran_def)
  next
    case (Some s)
    with upd have q: "q = p\<lparr>instr2stats :=
        RBT.map_entry instr (\<lambda>s. s\<lparr>count := count s + 1, time_total := time_total s + e\<rparr>)
          (instr2stats p), t_total := t_total p + e\<rparr>"
      by (auto simp: update_def)
    from ex Some have "exact_add (time_total s) e"
      by simp
    from exact_add_value[OF this] b obtain a where
      a: "double_value (time_total s) = Some a"
      and rec: "double_value (time_total s + e) = Some (a + b)"
      by auto
    have in_dom: "instr \<in> ?D"
      using Some by auto
    have dom_q: "dom (RBT.lookup (instr2stats q)) = ?D"
      using Some by (auto simp: q split: if_splits)
    have "(\<Sum>k \<in> ?D. ?v (the (RBT.lookup (instr2stats q) k)))
          = ?v (the (RBT.lookup (instr2stats q) instr))
            + (\<Sum>k \<in> ?D - {instr}. ?v (the (RBT.lookup (instr2stats q) k)))"
      by (rule sum.remove[OF fin in_dom])
    also have "(\<Sum>k \<in> ?D - {instr}. ?v (the (RBT.lookup (instr2stats q) k)))
               = (\<Sum>k \<in> ?D - {instr}. ?f k)"
      by (rule sum.cong) (simp_all add: q)
    also have "?v (the (RBT.lookup (instr2stats q) instr)) = ?f instr + b"
      using Some rec a by (simp add: q)
    finally have "(\<Sum>k \<in> ?D. ?v (the (RBT.lookup (instr2stats q) k)))
          = (?f instr + (\<Sum>k \<in> ?D - {instr}. ?f k)) + b"
      by (simp add: add.assoc add.commute add.left_commute)
    also have "?f instr + (\<Sum>k \<in> ?D - {instr}. ?f k) = (\<Sum>k \<in> ?D. ?f k)"
      by (rule sum.remove[OF fin in_dom, symmetric])
    finally have sum_q: "(\<Sum>k \<in> dom (RBT.lookup (instr2stats q)). ?v (the (RBT.lookup (instr2stats q) k)))
          = (\<Sum>k \<in> ?D. ?f k) + b"
      unfolding dom_q .
    have fin_q: "double_value (time_total s') \<noteq> None" if "RBT.lookup (instr2stats q) k = Some s'" for k s'
      using that fin_p[of k s'] Some rec by (auto simp: q split: if_splits)
    have "t_total q = t_total p + e"
      by (simp add: q)
    with tot_q sum_q fin_q show ?thesis
      unfolding exactly_additive_iff by (auto simp: ran_def)
  qed
qed

lemma exactly_additive_calls:
  "exactly_additive p \<Longrightarrow> exact_calls mem cs p \<Longrightarrow> calls mem cs p = Inr q \<Longrightarrow> exactly_additive q"
proof (induction cs arbitrary: p)
  case Nil
  then show ?case by simp
next
  case (Cons c cs)
  from Cons.prems(3) obtain p' where step: "call mem c p = Inr p'" and rest: "calls mem cs p' = Inr q"
    by (auto split: sum.splits)
  from Cons.prems(2) step have ex: "exact_call c p" and ex': "exact_calls mem cs p'"
    by simp_all
  have "exactly_additive p'"
  proof (cases c)
    case (Update instr e)
    with step ex Cons.prems(1) show ?thesis
      by (auto intro: exactly_additive_update)
  next
    case ClearStats
    with step show ?thesis
      by (auto simp: exactly_additive_clear_stats)
  qed
  from this ex' rest show ?case
    by (rule Cons.IH)
qed

lemma calls_valid:
  "(\<forall>instr e. Update instr e \<in> set cs \<longrightarrow> mem instr \<noteq> None) \<Longrightarrow> \<exists>q. calls mem cs p = Inr q"
proof (induction cs arbitrary: p)
  case Nil
  then show ?case by simp
next
  case (Cons c cs)
  have "\<exists>p'. call mem c p = Inr p'"
  proof (cases c)
    case (Update instr e)
    with Cons.prems have "mem instr \<noteq> None"
      by simp
    with Update show ?thesis
      by (auto simp: update_def)
  next
    case ClearStats
    then show ?thesis by simp
  qed
  then obtain p' where step: "call mem c p = Inr p'" ..
  from Cons.prems have "\<forall>instr e. Update instr e \<in> set cs \<longrightarrow> mem instr \<noteq> None"
    by simp
  from Cons.IH[OF this] obtain q where "calls mem cs p' = Inr q" ..
  with step show ?case
    by simp
qed

lemma additive_clear_stats: "profiler_additive (clear_stats p)"
  by (simp add: profiler_additive_def clear_stats_def get_instr_stats_def entries_empty
      sum_time_total_def zero_double_def)

lemma rounding_run_eval:
  "(case rounding_run of
      Inl err \<Rightarrow> False
    | Inr q \<Rightarrow> t_total q = Finite False 5404319552844596 (-53)
        \<and> sum_time_total (get_instr_stats q) = Finite False 5404319552844595 (-53)
        \<and> \<not> profiler_additive q)"
  by code_simp

text \<open>
  Claim C3, as stated, fails in the arithmetic of \<^verbatim>\<open>double\<close>. After
  \<^verbatim>\<open>clear_stats\<close> and the updates \<open>(i\<^sub>1, 0.1)\<close>, \<open>(i\<^sub>2, 0.2)\<close>, \<open>(i\<^sub>2, 0.3)\<close>,
  \<open>t_total\<close> is \<open>(0.1 + 0.2) + 0.3 = 0.6000000000000001\<close>, and the records hold \<open>0.1\<close>
  and \<open>0.2 + 0.3 = 0.5\<close>, whose sum is \<open>0.6\<close>: the two are different numbers.
\<close>

theorem additivity_fails_in_double:
  "\<not> isl rounding_run
   \<and> t_total (projr rounding_run) = Finite False 5404319552844596 (-53)
   \<and> sum_time_total (get_instr_stats (projr rounding_run))
       = Finite False 5404319552844595 (-53)
   \<and> \<not> profiler_additive (projr rounding_run)"
proof (cases rounding_run)
  case (Inl err)
  from rounding_run_eval show ?thesis
    unfolding Inl by simp
next
  case (Inr q)
  from rounding_run_eval show ?thesis
    unfolding Inr by simp
qed

text \<open>
  Claim C3, amended, for the profiler with its times in \<^verbatim>\<open>double\<close>. After
  \<^verbatim>\<open>clear_stats\<close>, \<open>t_total\<close> is the sum of \<open>time_total\<close> over the records, as
  numbers and by \<^verbatim>\<open>==\<close>. A sequence of \<^verbatim>\<open>update\<close> and \<^verbatim>\<open>clear_stats\<close> calls
  in which no \<^verbatim>\<open>+=\<close> rounds, made in a state where \<open>t_total\<close> denotes the sum of the
  numbers the \<open>time_total\<close>s denote, ends in such a state; and when adding up the
  records of that state in the order of the snapshot does not round either,
  \<open>t_total == \<Sigma> stats[i].time_total\<close> holds in double arithmetic. A sequence whose
  updates all name instructions in memory does end.
\<close>

theorem additivity_without_rounding:
  "exactly_additive (clear_stats p) \<and> profiler_additive (clear_stats p)
   \<and> (exactly_additive p \<and> exact_calls mem cs p \<and> calls mem cs p = Inr q \<longrightarrow>
        exactly_additive q
        \<and> (no_rounding 0 (map time_total (get_instr_stats q)) \<longrightarrow> profiler_additive q))
   \<and> ((\<forall>instr e. Update instr e \<in> set cs \<longrightarrow> mem instr \<noteq> None)
        \<longrightarrow> (\<exists>q'. calls mem cs p = Inr q'))"
  using exactly_additive_clear_stats additive_clear_stats exactly_additive_calls
    additive_when_exact calls_valid by blast

lemma exact_run_eval:
  "(case exact_run of
      Inl err \<Rightarrow> False
    | Inr q \<Rightarrow> t_total q = Finite False 7881299347898368 (-53)
        \<and> no_rounding 0 (map time_total (get_instr_stats q)))
   \<and> exact_calls example_mem
        [Update 1 double_0_5, Update 2 double_0_25, Update 2 double_0_125]
        (clear_stats native_profiler)"
  by code_simp

theorem additivity_without_rounding_witness:
  "\<not> isl exact_run
   \<and> t_total (projr exact_run) = Finite False 7881299347898368 (-53)
   \<and> exactly_additive (projr exact_run)
   \<and> profiler_additive (projr exact_run)"
proof (cases exact_run)
  case (Inl err)
  from exact_run_eval show ?thesis
    unfolding Inl by simp
next
  case (Inr q)
  let ?cs = "[Update 1 double_0_5, Update 2 double_0_25, Update 2 double_0_125]"
  let ?p = "clear_stats (native_profiler :: double NativeProfiler)"
  from exact_run_eval have t: "t_total q = Finite False 7881299347898368 (-53)"
    and nr: "no_rounding 0 (map time_total (get_instr_stats q))"
    and ex: "exact_calls example_mem ?cs ?p"
    unfolding Inr by simp_all
  have run: "calls example_mem ?cs ?p = Inr q"
    using Inr by (simp only: exact_run_def)
  have start: "exactly_additive ?p"
    using additivity_without_rounding[of native_profiler example_mem "[]" ?p] by blast
  from additivity_without_rounding[of ?p example_mem ?cs q] start ex run nr
  have "exactly_additive q \<and> profiler_additive q"
    by blast
  with t show ?thesis
    unfolding Inr by simp
qed

section \<open>Properties of the interpreters\<close>

subsection \<open>Sorting a firing order\<close>






subsection \<open>Fires without a conflict commute\<close>









subsection \<open>The invariant of the scheduler\<close>















subsection \<open>Orders that respect the dependencies\<close>








subsection \<open>Runs of the scheduler\<close>












subsection \<open>The two graphs\<close>













end
